theory Spec2Isabelle
  imports Main "HOL-Library.Word"
begin

unbundle bit_operations_syntax

section \<open>Adapter modes and their names (hcid/adapter.c)\<close>

type_synonym u8 = "8 word"
type_synonym u32 = "32 word"

text \<open>
  The mode and scan constants come from the headers \<^verbatim>\<open>hcid.h\<close> and
  \<^verbatim>\<open>bluetooth/hci.h\<close>, which the functions below use by name. The modes are
  pairwise distinct bytes ordered Off < Connectable < Discoverable < Limited, with the
  unknown mode above all of them.
\<close>

definition MODE_OFF :: u8 where "MODE_OFF = 0x00"
definition MODE_CONNECTABLE :: u8 where "MODE_CONNECTABLE = 0x01"
definition MODE_DISCOVERABLE :: u8 where "MODE_DISCOVERABLE = 0x02"
definition MODE_LIMITED :: u8 where "MODE_LIMITED = 0x03"
definition MODE_UNKNOWN :: u8 where "MODE_UNKNOWN = 0xff"

definition SCAN_DISABLED :: u8 where "SCAN_DISABLED = 0x00"
definition SCAN_INQUIRY :: u8 where "SCAN_INQUIRY = 0x01"
definition SCAN_PAGE :: u8 where "SCAN_PAGE = 0x02"

definition EALREADY :: int where "EALREADY = 114"
definition ENETDOWN :: int where "ENETDOWN = 100"
definition ENODEV :: int where "ENODEV = 19"
definition HCI_AUTHENTICATION_FAILURE :: int where "HCI_AUTHENTICATION_FAILURE = 0x05"

datatype offmode_t = HCID_OFFMODE_DEVDOWN | HCID_OFFMODE_NOSCAN

text \<open>
  A C string is modelled by the list of its characters before the terminating NUL.
  \<open>tolower\<close> is the C-locale function; \<open>strcasecmp\<close> returns the sign of the
  first case-folded difference, which is all that POSIX promises and all that the
  callers test.
\<close>

definition tolower :: "char \<Rightarrow> char" where
  "tolower c =
     (case map_of (zip ''ABCDEFGHIJKLMNOPQRSTUVWXYZ'' ''abcdefghijklmnopqrstuvwxyz'') c of
        Some l \<Rightarrow> l
      | None \<Rightarrow> c)"

fun strcasecmp :: "string \<Rightarrow> string \<Rightarrow> int" where
  "strcasecmp [] [] = 0"
| "strcasecmp [] (y # ys) = - 1"
| "strcasecmp (x # xs) [] = 1"
| "strcasecmp (x # xs) (y # ys) =
     (if tolower x = tolower y then strcasecmp xs ys
      else if (of_char (tolower x) :: nat) < of_char (tolower y) then - 1 else 1)"

definition mode2str :: "u8 \<Rightarrow> string" where
  "mode2str mode =
     (if mode = MODE_OFF then ''off''
      else if mode = MODE_CONNECTABLE then ''connectable''
      else if mode = MODE_DISCOVERABLE then ''discoverable''
      else if mode = MODE_LIMITED then ''limited''
      else ''unknown'')"

text \<open>
  \<open>str2mode\<close> and \<open>on_mode\<close> call each other: the name "on" is resolved through
  the stored on-mode, which is parsed by \<open>str2mode\<close> again. A stored value that is
  itself "on" makes the C functions recurse without end, so the model is a partial
  function and \<open>None\<close> stands for a call that does not return. The body of
  \<open>on_mode\<close> is written out inside \<open>str2mode\<close>; \<open>on_mode\<close> itself follows.
  The first argument is \<^verbatim>\<open>read_on_mode\<close> of the storage layer: the stored string
  for an adapter address, or \<open>None\<close> where the C function returns a negative value.
\<close>

partial_function (option) str2mode ::
  "(string \<Rightarrow> string option) \<Rightarrow> string \<Rightarrow> string \<Rightarrow> u8 option" where
  "str2mode rd addr mode =
     (if strcasecmp ''off'' mode = 0 then Some MODE_OFF
      else if strcasecmp ''connectable'' mode = 0 then Some MODE_CONNECTABLE
      else if strcasecmp ''discoverable'' mode = 0 then Some MODE_DISCOVERABLE
      else if strcasecmp ''limited'' mode = 0 then Some MODE_LIMITED
      else if strcasecmp ''on'' mode = 0 then
        (case rd addr of
           None \<Rightarrow> Some MODE_CONNECTABLE
         | Some stored \<Rightarrow> str2mode rd addr stored)
      else Some MODE_UNKNOWN)"

declare str2mode.simps [code]

definition on_mode :: "(string \<Rightarrow> string option) \<Rightarrow> string \<Rightarrow> u8 option" where
  "on_mode rd addr =
     (case rd addr of
        None \<Rightarrow> Some MODE_CONNECTABLE
      | Some stored \<Rightarrow> str2mode rd addr stored)"

section \<open>Messages, replies and observable effects\<close>

datatype dbus_arg = ArgString string | ArgUInt32 u32 | ArgBoolean bool

record dbus_message =
  msg_sender :: string
  msg_path :: string
  msg_member :: string
  msg_args :: "dbus_arg list"

text \<open>The argument of \<^verbatim>\<open>strerror\<close> in a Failed reply: an errno, or \<^verbatim>\<open>bt_error(status)\<close>.\<close>

datatype errsrc = Errno int | BtError u8

text \<open>
  The replies the handlers build. Allocation failure of a message is not modelled: a
  message constructor always yields its message.
\<close>

datatype reply =
    MethodReturn
  | InvalidArguments
  | NotAvailable
  | NotReady
  | NoSuchAdapter
  | FailedStrerror errsrc
  | InProgress string
  | Failed string
  | AgentError string string
  | ConnectionAttemptFailed int
  | AuthenticationCanceled
  | AuthenticationReturn int
  | BondingNotInProgress
  | NotAuthorized

record mode_req =
  req_msg :: dbus_message
  req_mode :: u8
  req_id :: nat

text \<open>
  What a handler does to the outside world, in the order it does it. Hardware calls
  carry the value the call returned, so that a trace shows which step failed.
\<close>

datatype effect =
    HciOpenDev int
  | HciCloseDev
  | IoctlDevUp int int
  | IoctlDevDown int int
  | SetLimitedDiscoverable bool int
  | WriteScanEnable u8 int u8
  | EmitModeChanged string string
  | GSourceRemove nat
  | GTimeoutAdd u32 nat
  | WriteDeviceMode string string
  | SendReply dbus_message reply
  | AgentConfirmModeChange string mode_req int
  | AddDisconnectWatch string nat
  | RemoveWatch nat
  | FreeModeReq mode_req
  | ReadRemoteNameCancel int
  | Inquiry int u8
  | IoChannelClose
  | AdapterRemoveDevice string
  | AuthRequested int u8
  | GIoAddWatch nat
  | PinCodeNegReply
  | FreeBonding

text \<open>A hardware step of a trace failed, as the code judges it at the call.\<close>

fun failed_step :: "effect \<Rightarrow> bool" where
  "failed_step (HciOpenDev dd) = (dd < 0)"
| "failed_step (IoctlDevUp r e) = (r \<noteq> 0 \<and> e \<noteq> EALREADY)"
| "failed_step (IoctlDevDown r e) = (r < 0)"
| "failed_step (SetLimitedDiscoverable l r) = (r < 0)"
| "failed_step (WriteScanEnable p r st) = (r < 0 \<or> st \<noteq> 0)"
| "failed_step _ = False"

section \<open>The adapter\<close>

type_synonym bdaddr_t = "48 word"

record pending_pin_info =
  pin_bdaddr :: bdaddr_t
  replied :: bool

record bonding_request_info =
  bonding_msg :: dbus_message
  bdaddr :: bdaddr_t
  io_id :: nat
  listener_id :: nat
  hci_status :: int
  cancel :: bool
  auth_active :: bool

datatype name_status_t =
  NAME_ANY | NAME_NOT_REQUIRED | NAME_REQUIRED | NAME_REQUESTED | NAME_SENT

record remote_dev_info =
  dev_bdaddr :: bdaddr_t
  name_status :: name_status_t

record device =
  dev_address :: string
  temporary :: bool

record adapter =
  address :: string
  up :: bool
  mode :: u8
  global_mode :: u8
  scan_enable :: u8
  discov_timeout :: u32
  timeout_id :: nat
  sessions :: "mode_req list"
  agent :: bool
  discov_active :: bool
  pdiscov_active :: bool
  discov_type :: u32
  discov_requestor :: "string option"
  discov_listener :: nat
  found_devices :: "remote_dev_info list"
  bonding :: "bonding_request_info option"
  pin_reqs :: "pending_pin_info list"
  devices :: "device list"

text \<open>
  The environment of the mode functions: the \<^verbatim>\<open>hcid.offmode\<close> setting, the storage
  read behind "on", and what each outside call of one handler run returns
  (\<^verbatim>\<open>hci_open_dev\<close>, the two \<^verbatim>\<open>ioctl\<close>s with their errno,
  \<^verbatim>\<open>set_limited_discoverable\<close>, \<^verbatim>\<open>hci_send_req\<close> with its errno and the status byte of
  the command-complete event, the source id from \<^verbatim>\<open>g_timeout_add\<close>, the watch id from
  \<^verbatim>\<open>g_dbus_add_disconnect_watch\<close>, and \<^verbatim>\<open>agent_confirm_mode_change\<close>).
\<close>

record hci_env =
  offmode :: offmode_t
  read_on_mode :: "string \<Rightarrow> string option"
  hci_open_dev_r :: int
  ioctl_devup_r :: int
  ioctl_devup_errno :: int
  ioctl_devdown_r :: int
  ioctl_devdown_errno :: int
  set_limited_discoverable_r :: int
  hci_send_req_r :: int
  hci_send_req_errno :: int
  hci_status_r :: u8
  g_timeout_add_r :: nat
  add_disconnect_watch_r :: nat
  agent_confirm_mode_change_r :: int

subsection \<open>set_mode: committing a mode\<close>

definition scan_enable_of :: "u8 \<Rightarrow> u8 option" where
  "scan_enable_of new_mode =
     (if new_mode = MODE_OFF then Some SCAN_DISABLED
      else if new_mode = MODE_CONNECTABLE then Some SCAN_PAGE
      else if new_mode = MODE_DISCOVERABLE \<or> new_mode = MODE_LIMITED
        then Some (SCAN_PAGE OR SCAN_INQUIRY)
      else None)"

text \<open>The label \<^verbatim>\<open>done\<close>: store the mode name, close the link, commit the mode.\<close>

definition set_mode_done ::
  "adapter \<Rightarrow> u8 \<Rightarrow> effect list \<Rightarrow> reply \<times> adapter \<times> effect list" where
  "set_mode_done a new_mode tr =
     (MethodReturn, a\<lparr>mode := new_mode\<rparr>,
      tr @ [WriteDeviceMode (address a) (mode2str new_mode), HciCloseDev])"

text \<open>From the limited-discoverable command to the end of the function.\<close>

definition set_mode_scan ::
  "hci_env \<Rightarrow> adapter \<Rightarrow> dbus_message \<Rightarrow> u8 \<Rightarrow> u8 \<Rightarrow> effect list
     \<Rightarrow> reply \<times> adapter \<times> effect list" where
  "set_mode_scan env a msg new_mode scan tr =
     (let limited = (new_mode = MODE_LIMITED);
          err = set_limited_discoverable_r env;
          tr1 = tr @ [SetLimitedDiscoverable limited err]
      in if err < 0 then (FailedStrerror (Errno (- err)), a, tr1 @ [HciCloseDev])
      else if scan_enable a \<noteq> scan then
        (let tr2 = tr1 @ [WriteScanEnable scan (hci_send_req_r env) (hci_status_r env)]
         in if hci_send_req_r env < 0
              then (FailedStrerror (Errno (hci_send_req_errno env)), a, tr2 @ [HciCloseDev])
            else if hci_status_r env \<noteq> 0
              then (FailedStrerror (BtError (hci_status_r env)), a, tr2 @ [HciCloseDev])
            else set_mode_done a new_mode tr2)
      else if scan AND SCAN_INQUIRY \<noteq> 0 \<and> new_mode \<noteq> mode a then
        (let tr2 = tr1 @ [EmitModeChanged (msg_path msg) (mode2str new_mode)];
             tr3 = (if timeout_id a \<noteq> 0 then tr2 @ [GSourceRemove (timeout_id a)] else tr2)
         in if sessions a = [] \<and> discov_timeout a = 0
              then set_mode_done (a\<lparr>timeout_id := g_timeout_add_r env\<rparr>) new_mode
                     (tr3 @ [GTimeoutAdd (discov_timeout a * 1000) (g_timeout_add_r env)])
            else set_mode_done a new_mode tr3)
      else set_mode_done a new_mode tr1)"

text \<open>From the power-down test on.\<close>

definition set_mode_down ::
  "hci_env \<Rightarrow> adapter \<Rightarrow> dbus_message \<Rightarrow> u8 \<Rightarrow> u8 \<Rightarrow> effect list
     \<Rightarrow> reply \<times> adapter \<times> effect list" where
  "set_mode_down env a msg new_mode scan tr =
     (if up a \<and> scan = SCAN_DISABLED \<and> offmode env = HCID_OFFMODE_DEVDOWN then
        (let tr1 = tr @ [IoctlDevDown (ioctl_devdown_r env) (ioctl_devdown_errno env)]
         in if ioctl_devdown_r env < 0
              then (FailedStrerror (Errno (ioctl_devdown_errno env)), a, tr1 @ [HciCloseDev])
            else set_mode_done a new_mode tr1)
      else set_mode_scan env a msg new_mode scan tr)"

definition set_mode ::
  "hci_env \<Rightarrow> adapter \<Rightarrow> dbus_message \<Rightarrow> u8 \<Rightarrow> reply \<times> adapter \<times> effect list" where
  "set_mode env a msg new_mode =
     (case scan_enable_of new_mode of
        None \<Rightarrow> (InvalidArguments, a, [])
      | Some scan \<Rightarrow>
          let tr = [HciOpenDev (hci_open_dev_r env)]
          in if hci_open_dev_r env < 0 then (NoSuchAdapter, a, tr)
          else if \<not> up a \<and>
                  (offmode env = HCID_OFFMODE_NOSCAN \<or>
                   (offmode env = HCID_OFFMODE_DEVDOWN \<and> scan \<noteq> SCAN_DISABLED)) then
            (let tr1 = tr @ [IoctlDevUp (ioctl_devup_r env) (ioctl_devup_errno env)]
             in if ioctl_devup_r env = 0 then set_mode_done a new_mode tr1
                else if ioctl_devup_errno env \<noteq> EALREADY
                  then (FailedStrerror (Errno (ioctl_devup_errno env)), a, tr1 @ [HciCloseDev])
                else set_mode_down env a msg new_mode scan tr1)
          else set_mode_down env a msg new_mode scan tr)"

subsection \<open>SetMode and the confirm-mode protocol\<close>

text \<open>
  \<^verbatim>\<open>g_slist_find_custom\<close> returns the first element the comparison function maps to 0.
  \<open>find_session\<close> is \<^verbatim>\<open>strcmp\<close> on the two senders; only whether it is 0 is used.
\<close>

definition g_slist_find_custom :: "'a list \<Rightarrow> 'b \<Rightarrow> ('a \<Rightarrow> 'b \<Rightarrow> int) \<Rightarrow> 'a option" where
  "g_slist_find_custom l d cmp = find (\<lambda>x. cmp x d = 0) l"

definition find_session :: "mode_req \<Rightarrow> dbus_message \<Rightarrow> int" where
  "find_session req msg = (if msg_sender (req_msg req) = msg_sender msg then 0 else 1)"

text \<open>
  \<^verbatim>\<open>dbus_message_get_args\<close> for one string: the first argument must be a string;
  further arguments are not looked at.
\<close>

definition get_string_arg :: "dbus_message \<Rightarrow> string option" where
  "get_string_arg msg = (case msg_args msg of ArgString s # _ \<Rightarrow> Some s | _ \<Rightarrow> None)"

text \<open>
  \<^verbatim>\<open>send_message_and_unref\<close> sends a reply when there is one; the handlers also pass
  it the NULL of a deferred reply.
\<close>

definition send_message_and_unref :: "dbus_message \<Rightarrow> reply option \<Rightarrow> effect list" where
  "send_message_and_unref msg r = (case r of None \<Rightarrow> [] | Some x \<Rightarrow> [SendReply msg x])"

text \<open>
  The agent's answer arrives in \<open>confirm_mode_cb\<close>: \<open>err\<close> is the name and message
  of a set D-Bus error, or \<open>None\<close>. The label \<^verbatim>\<open>cleanup\<close> releases the request
  and its watch; it does not take the request out of the sessions list.
\<close>

definition mode_req_cleanup :: "mode_req \<Rightarrow> effect list" where
  "mode_req_cleanup req =
     (if req_id req \<noteq> 0 then [RemoveWatch (req_id req), FreeModeReq req] else [FreeModeReq req])"

definition confirm_mode_cb ::
  "hci_env \<Rightarrow> adapter \<Rightarrow> (string \<times> string) option \<Rightarrow> mode_req \<Rightarrow> adapter \<times> effect list" where
  "confirm_mode_cb env a err req =
     (case err of
        Some (name, message) \<Rightarrow>
          (a, [SendReply (req_msg req) (AgentError name message)] @ mode_req_cleanup req)
      | None \<Rightarrow>
          (case set_mode env a (req_msg req) (req_mode req) of
             (r, a', tr) \<Rightarrow>
               let tr1 = tr @ [SendReply (req_msg req) r]
               in if g_slist_find_custom (sessions a') (req_msg req) find_session = None
                  then (a', tr1 @ mode_req_cleanup req)
                  else (a', tr1)))"

text \<open>
  \<open>confirm_mode\<close> returns the reply to send now, or \<open>None\<close> for the NULL that
  defers it to the agent's answer. The outer option is \<open>None\<close> when \<open>str2mode\<close>
  does not return.
\<close>

definition confirm_mode ::
  "hci_env \<Rightarrow> adapter \<Rightarrow> dbus_message \<Rightarrow> string \<Rightarrow> (reply option \<times> effect list) option" where
  "confirm_mode env a msg mode_str =
     (if \<not> agent a then Some (Some MethodReturn, [])
      else
        (case str2mode (read_on_mode env) (address a) mode_str of
           None \<Rightarrow> None
         | Some m \<Rightarrow>
             let req = \<lparr>req_msg = msg, req_mode = m, req_id = 0\<rparr>;
                 ret = agent_confirm_mode_change_r env;
                 tr = [AgentConfirmModeChange mode_str req ret]
             in if ret < 0 then Some (Some InvalidArguments, tr @ [FreeModeReq req])
                else Some (None, tr)))"

text \<open>
  The handler of SetMode. Every path returns \<^verbatim>\<open>DBUS_HANDLER_RESULT_HANDLED\<close>, so the
  model returns the adapter and the trace.
\<close>

definition adapter_set_mode ::
  "hci_env \<Rightarrow> adapter \<Rightarrow> dbus_message \<Rightarrow> (adapter \<times> effect list) option" where
  "adapter_set_mode env a msg =
     (case get_string_arg msg of
        None \<Rightarrow> Some (a, [SendReply msg InvalidArguments])
      | Some mode_str \<Rightarrow>
          (case str2mode (read_on_mode env) (address a) mode_str of
             None \<Rightarrow> None
           | Some gm \<Rightarrow>
               let a1 = a\<lparr>global_mode := gm\<rparr>
               in if global_mode a1 = mode a1 then Some (a1, [SendReply msg MethodReturn])
                  else if sessions a1 \<noteq> [] \<and> global_mode a1 < mode a1 then
                    (case confirm_mode env a1 msg mode_str of
                       None \<Rightarrow> None
                     | Some (r, tr) \<Rightarrow> Some (a1, tr @ send_message_and_unref msg r))
                  else
                    (case str2mode (read_on_mode env) (address a1) mode_str of
                       None \<Rightarrow> None
                     | Some m \<Rightarrow>
                         (case set_mode env a1 msg m of
                            (r, a2, tr) \<Rightarrow> Some (a2, tr @ [SendReply msg r])))))"

subsection \<open>Mode sessions\<close>

text \<open>
  \<open>session_exit\<close> runs on ReleaseMode and when the requester leaves the bus. The call
  of \<open>set_mode\<close> for the fallback is commented out in the source (marked FIXME), so
  an empty list only logs.
\<close>

definition session_exit :: "adapter \<Rightarrow> mode_req \<Rightarrow> adapter \<times> effect list" where
  "session_exit a req = (a\<lparr>sessions := remove1 req (sessions a)\<rparr>, [FreeModeReq req])"

definition request_mode ::
  "hci_env \<Rightarrow> adapter \<Rightarrow> dbus_message \<Rightarrow> (reply option \<times> adapter \<times> effect list) option" where
  "request_mode env a msg =
     (case get_string_arg msg of
        None \<Rightarrow> Some (Some InvalidArguments, a, [])
      | Some mode_str \<Rightarrow>
          (case str2mode (read_on_mode env) (address a) mode_str of
             None \<Rightarrow> None
           | Some new_mode \<Rightarrow>
               if new_mode \<noteq> MODE_CONNECTABLE \<and> new_mode \<noteq> MODE_DISCOVERABLE
                 then Some (Some InvalidArguments, a, [])
               else if \<not> agent a then Some (Some (Failed ''No agent registered''), a, [])
               else if g_slist_find_custom (sessions a) msg find_session \<noteq> None
                 then Some (Some (Failed ''Mode already requested''), a, [])
               else
                 let req = \<lparr>req_msg = msg, req_mode = new_mode,
                            req_id = add_disconnect_watch_r env\<rparr>;
                     tr = [AddDisconnectWatch (msg_sender msg) (req_id req)];
                     a1 = (if sessions a = [] then a\<lparr>global_mode := mode a\<rparr> else a);
                     a2 = a1\<lparr>sessions := sessions a1 @ [req]\<rparr>
                 in if new_mode \<le> mode a2 then Some (Some MethodReturn, a2, tr)
                    else
                      let ret = agent_confirm_mode_change_r env;
                          tr1 = tr @ [AgentConfirmModeChange mode_str req ret]
                      in if ret < 0
                           then Some (Some InvalidArguments, a2,
                                      tr1 @ [RemoveWatch (req_id req), FreeModeReq req])
                         else Some (None, a2, tr1)))"

definition release_mode :: "adapter \<Rightarrow> dbus_message \<Rightarrow> reply \<times> adapter \<times> effect list" where
  "release_mode a msg =
     (case g_slist_find_custom (sessions a) msg find_session of
        None \<Rightarrow> (Failed ''No Mode to release'', a, [])
      | Some req \<Rightarrow> (case session_exit a req of (a', tr) \<Rightarrow> (MethodReturn, a', tr)))"

section \<open>Discovery\<close>

definition STD_INQUIRY :: u32 where "STD_INQUIRY = 0x01"
definition PERIODIC_INQUIRY :: u32 where "PERIODIC_INQUIRY = 0x02"
definition RESOLVE_NAME :: u32 where "RESOLVE_NAME = 0x10"
definition BDADDR_ANY :: bdaddr_t where "BDADDR_ANY = 0"

text \<open>
  What the outside calls of one DiscoverDevices run return: inside
  \<open>pending_remote_name_cancel\<close> the comparison \<^verbatim>\<open>found_device_cmp\<close> (defined outside
  this file), \<^verbatim>\<open>hci_open_dev\<close> and \<^verbatim>\<open>hci_read_remote_name_cancel\<close> with its errno; then
  \<^verbatim>\<open>hci_open_dev\<close>, \<^verbatim>\<open>hci_send_req\<close> for the inquiry with its errno and the status of
  the command-status event, and the id of the new disconnect watch.
\<close>

record disc_env =
  found_device_cmp :: "remote_dev_info \<Rightarrow> remote_dev_info \<Rightarrow> int"
  cancel_open_dev_r :: int
  read_remote_name_cancel_r :: int
  read_remote_name_cancel_errno :: int
  inq_open_dev_r :: int
  inq_send_req_r :: int
  inq_send_req_errno :: int
  inq_status_r :: u8
  inq_watch_r :: nat

definition pending_remote_name_cancel ::
  "disc_env \<Rightarrow> adapter \<Rightarrow> int \<times> adapter \<times> effect list" where
  "pending_remote_name_cancel env a =
     (let match = \<lparr>dev_bdaddr = BDADDR_ANY, name_status = NAME_REQUESTED\<rparr>
      in case g_slist_find_custom (found_devices a) match (found_device_cmp env) of
           None \<Rightarrow> (0, a, [])
         | Some dev \<Rightarrow>
             if cancel_open_dev_r env < 0
               then (- ENODEV, a, [HciOpenDev (cancel_open_dev_r env)])
             else
               (if read_remote_name_cancel_r env < 0
                  then - read_remote_name_cancel_errno env else 0,
                a\<lparr>found_devices := []\<rparr>,
                [HciOpenDev (cancel_open_dev_r env),
                 ReadRemoteNameCancel (read_remote_name_cancel_r env), HciCloseDev]))"

definition adapter_discover_devices ::
  "disc_env \<Rightarrow> adapter \<Rightarrow> dbus_message \<Rightarrow> reply \<times> adapter \<times> effect list" where
  "adapter_discover_devices env a msg =
     (if \<not> up a then (NotReady, a, [])
      else if msg_args msg \<noteq> [] then (InvalidArguments, a, [])
      else if discov_active a then (InProgress ''Discover in progress'', a, [])
      else
        (case pending_remote_name_cancel env a of
           (err, a1, tr) \<Rightarrow>
             if bonding a1 \<noteq> None then (InProgress ''Bonding in progress'', a1, tr)
             else
               let tr1 = tr @ [HciOpenDev (inq_open_dev_r env)]
               in if inq_open_dev_r env < 0 then (NoSuchAdapter, a1, tr1)
                  else
                    let tr2 = tr1 @ [Inquiry (inq_send_req_r env) (inq_status_r env)]
                    in if inq_send_req_r env < 0
                         then (FailedStrerror (Errno (inq_send_req_errno env)), a1,
                               tr2 @ [HciCloseDev])
                       else if inq_status_r env \<noteq> 0
                         then (FailedStrerror (BtError (inq_status_r env)), a1,
                               tr2 @ [HciCloseDev])
                       else
                         (MethodReturn,
                          a1\<lparr>discov_type :=
                                (if msg_member msg = ''DiscoverDevicesWithoutNameResolving''
                                 then discov_type a1 OR STD_INQUIRY
                                 else discov_type a1 OR (STD_INQUIRY OR RESOLVE_NAME)),
                              discov_requestor := Some (msg_sender msg),
                              discov_listener := inq_watch_r env\<rparr>,
                          tr2 @ [HciCloseDev,
                                 AddDisconnectWatch (msg_sender msg) (inq_watch_r env)])))"

section \<open>Bonding\<close>

definition G_IO_OUT :: u32 where "G_IO_OUT = 4"
definition G_IO_ERR :: u32 where "G_IO_ERR = 8"
definition G_IO_HUP :: u32 where "G_IO_HUP = 16"
definition G_IO_NVAL :: u32 where "G_IO_NVAL = 32"

text \<open>
  What the outside calls of the bonding functions return: the two \<^verbatim>\<open>getsockopt\<close>s
  (result and errno, and the socket error read by the first), \<^verbatim>\<open>hci_open_dev\<close>,
  \<^verbatim>\<open>hci_send_req\<close> for the authentication request with its errno and status, the id
  of the new I/O watch, and the address functions \<^verbatim>\<open>ba2str\<close>, \<^verbatim>\<open>str2ba\<close> and
  \<^verbatim>\<open>check_address\<close>.
\<close>

record bond_env =
  so_error_r :: int
  so_error_errno :: int
  so_error_val :: int
  conninfo_r :: int
  conninfo_errno :: int
  bond_open_dev_r :: int
  auth_send_req_r :: int
  auth_send_req_errno :: int
  auth_status_r :: u8
  io_add_watch_r :: nat
  ba2str :: "bdaddr_t \<Rightarrow> string"
  str2ba :: "string \<Rightarrow> bdaddr_t"
  check_address :: "string \<Rightarrow> int"

definition reply_authentication_failure :: "bonding_request_info \<Rightarrow> effect list" where
  "reply_authentication_failure b =
     (let status = (if hci_status b \<noteq> 0 then hci_status b else HCI_AUTHENTICATION_FAILURE)
      in [SendReply (bonding_msg b) (AuthenticationReturn status)])"

text \<open>
  Modelled from the spec: \<^verbatim>\<open>device_address_cmp\<close> is not in the sources; a device record
  is found by its address string, compared without regard to case.
\<close>

definition device_address_cmp :: "device \<Rightarrow> string \<Rightarrow> int" where
  "device_address_cmp d dest = strcasecmp (dev_address d) dest"

definition adapter_find_device :: "adapter \<Rightarrow> string \<Rightarrow> device option" where
  "adapter_find_device a dest = g_slist_find_custom (devices a) dest device_address_cmp"

text \<open>
  \<open>remove_pending_device\<close> drops the temporary device record of the bonding address.
  It does so through \<^verbatim>\<open>adapter_remove_device\<close>, which is called without a message and
  therefore replies to nobody; its storage and hardware work is one entry of the trace.
\<close>

definition remove_pending_device ::
  "bond_env \<Rightarrow> adapter \<Rightarrow> bonding_request_info \<Rightarrow> adapter \<times> effect list" where
  "remove_pending_device env a b =
     (case adapter_find_device a (ba2str env (bdaddr b)) of
        None \<Rightarrow> (a, [])
      | Some d \<Rightarrow>
          if temporary d
            then (a\<lparr>devices := remove1 d (devices a)\<rparr>, [AdapterRemoveDevice (dev_address d)])
          else (a, []))"

text \<open>The labels \<^verbatim>\<open>cleanup\<close> and \<^verbatim>\<open>failed\<close> of \<open>create_bonding_conn_complete\<close>.\<close>

definition bonding_cleanup ::
  "adapter \<Rightarrow> bonding_request_info \<Rightarrow> effect list \<Rightarrow> adapter \<times> effect list" where
  "bonding_cleanup a b tr =
     (a\<lparr>bonding := None\<rparr>, tr @ [RemoveWatch (listener_id b), FreeBonding])"

definition bonding_failed ::
  "bond_env \<Rightarrow> adapter \<Rightarrow> bonding_request_info \<Rightarrow> effect list \<Rightarrow> adapter \<times> effect list" where
  "bonding_failed env a b tr =
     (case remove_pending_device env a b of
        (a1, tr1) \<Rightarrow> bonding_cleanup a1 b (tr @ [IoChannelClose] @ tr1))"

definition create_bonding_conn_complete ::
  "bond_env \<Rightarrow> adapter \<Rightarrow> u32 \<Rightarrow> adapter \<times> effect list" where
  "create_bonding_conn_complete env a cond =
     (case bonding a of
        None \<Rightarrow> (a, [IoChannelClose])
      | Some b \<Rightarrow>
          if cond AND G_IO_NVAL \<noteq> 0
            then bonding_cleanup a b [SendReply (bonding_msg b) AuthenticationCanceled]
          else if cond AND (G_IO_HUP OR G_IO_ERR) \<noteq> 0 then
            bonding_failed env a b
              (if \<not> auth_active b
                 then [SendReply (bonding_msg b) (ConnectionAttemptFailed ENETDOWN)]
               else reply_authentication_failure b)
          else if so_error_r env < 0 then
            bonding_failed env a b
              [SendReply (bonding_msg b) (FailedStrerror (Errno (so_error_errno env)))]
          else if so_error_val env \<noteq> 0 then
            bonding_failed env a b
              (if auth_active b then reply_authentication_failure b
               else [SendReply (bonding_msg b) (ConnectionAttemptFailed (so_error_val env))])
          else if conninfo_r env < 0 then
            bonding_failed env a b
              [SendReply (bonding_msg b) (FailedStrerror (Errno (conninfo_errno env)))]
          else if bond_open_dev_r env < 0 then
            bonding_failed env a b
              [HciOpenDev (bond_open_dev_r env), SendReply (bonding_msg b) NoSuchAdapter]
          else
            let tr = [HciOpenDev (bond_open_dev_r env),
                      AuthRequested (auth_send_req_r env) (auth_status_r env)]
            in if auth_send_req_r env < 0 then
                 bonding_failed env a b
                   (tr @ [SendReply (bonding_msg b)
                            (FailedStrerror (Errno (auth_send_req_errno env))), HciCloseDev])
               else if auth_status_r env \<noteq> 0 then
                 bonding_failed env a b
                   (tr @ [SendReply (bonding_msg b)
                            (FailedStrerror (BtError (auth_status_r env))), HciCloseDev])
               else
                 (a\<lparr>bonding := Some (b\<lparr>auth_active := True, io_id := io_add_watch_r env\<rparr>)\<rparr>,
                  tr @ [HciCloseDev, GIoAddWatch (io_add_watch_r env)]))"



section \<open>The audio device (profiles/audio/device.c)\<close>

datatype audio_state_t = AUDIO_STATE_DISCONNECTED | AUDIO_STATE_CONNECTING | AUDIO_STATE_CONNECTED

datatype sink_state_t =
  SINK_STATE_DISCONNECTED | SINK_STATE_CONNECTING | SINK_STATE_CONNECTED | SINK_STATE_PLAYING

datatype avctp_state_t =
  AVCTP_STATE_DISCONNECTED | AVCTP_STATE_CONNECTING | AVCTP_STATE_CONNECTED

datatype avdtp_session_state_t =
  AVDTP_SESSION_STATE_DISCONNECTED | AVDTP_SESSION_STATE_CONNECTING
  | AVDTP_SESSION_STATE_CONNECTED

datatype btd_reply =
  BtdMethodReturn | BtdInProgress | BtdAlreadyConnected | BtdNotConnected | BtdFailed string

datatype audio_effect =
    AvrcpConnect
  | AvrcpDisconnect
  | SinkDisconnect
  | SinkSetupStream
  | AvdtpGet bool
  | AvdtpUnref
  | SourceRemove nat
  | TimeoutAddSeconds nat nat
  | SendMessage dbus_message btd_reply
  | EmitPropertyChanged string

record dev_priv =
  state :: audio_state_t
  sink_state :: sink_state_t
  avctp_state :: avctp_state_t
  conn_req :: "dbus_message option"
  dc_req :: "dbus_message option"
  control_timer :: nat
  avdtp_timer :: nat
  headset_timer :: nat
  dc_id :: nat
  disconnecting :: bool

text \<open>
  Modelled from the spec: the watch registry of the underlying device record
  (\<^verbatim>\<open>device_add_disconnect_watch\<close>, \<^verbatim>\<open>device_remove_disconnect_watch\<close>) is not in the
  sources. The record keeps the handles of its registered disconnect watches; adding
  a watch registers it under the next handle, which is never 0, and returns the
  handle; removing one drops the watch with that handle.
\<close>

record btd_device =
  watches :: "nat list"
  last_watch :: nat

definition device_add_disconnect_watch :: "btd_device \<Rightarrow> btd_device \<times> nat" where
  "device_add_disconnect_watch d =
     (d\<lparr>watches := watches d @ [Suc (last_watch d)], last_watch := Suc (last_watch d)\<rparr>,
      Suc (last_watch d))"

definition device_remove_disconnect_watch :: "btd_device \<Rightarrow> nat \<Rightarrow> btd_device" where
  "device_remove_disconnect_watch d h = d\<lparr>watches := remove1 h (watches d)\<rparr>"

record audio_device =
  btd_dev :: btd_device
  sink :: bool
  control :: bool
  auto_connect :: bool
  priv :: dev_priv

text \<open>
  The state is an enumeration here, so \<open>state2str\<close> has no invalid case and
  \<open>device_set_state\<close> never leaves at its first test.
\<close>

definition state2str :: "audio_state_t \<Rightarrow> string" where
  "state2str st =
     (case st of
        AUDIO_STATE_DISCONNECTED \<Rightarrow> ''disconnected''
      | AUDIO_STATE_CONNECTING \<Rightarrow> ''connecting''
      | AUDIO_STATE_CONNECTED \<Rightarrow> ''connected'')"

definition device_remove_control_timer :: "audio_device \<Rightarrow> audio_device \<times> audio_effect list" where
  "device_remove_control_timer dev =
     (dev\<lparr>priv := (priv dev)\<lparr>control_timer := 0\<rparr>\<rparr>,
      if control_timer (priv dev) \<noteq> 0 then [SourceRemove (control_timer (priv dev))] else [])"

definition device_remove_avdtp_timer :: "audio_device \<Rightarrow> audio_device \<times> audio_effect list" where
  "device_remove_avdtp_timer dev =
     (dev\<lparr>priv := (priv dev)\<lparr>avdtp_timer := 0\<rparr>\<rparr>,
      if avdtp_timer (priv dev) \<noteq> 0 then [SourceRemove (avdtp_timer (priv dev))] else [])"

definition device_remove_headset_timer :: "audio_device \<Rightarrow> audio_device \<times> audio_effect list" where
  "device_remove_headset_timer dev =
     (dev\<lparr>priv := (priv dev)\<lparr>headset_timer := 0\<rparr>\<rparr>,
      if headset_timer (priv dev) \<noteq> 0 then [SourceRemove (headset_timer (priv dev))] else [])"

text \<open>The first part of \<open>device_set_state\<close>: the disconnect watch.\<close>

definition set_state_watch :: "audio_device \<Rightarrow> audio_state_t \<Rightarrow> audio_device" where
  "set_state_watch dev new_state =
     (if new_state = AUDIO_STATE_DISCONNECTED then
        (if dc_id (priv dev) \<noteq> 0
           then dev\<lparr>btd_dev := device_remove_disconnect_watch (btd_dev dev) (dc_id (priv dev)),
                    priv := (priv dev)\<lparr>dc_id := 0\<rparr>\<rparr>
         else dev)
      else if new_state = AUDIO_STATE_CONNECTING then
        (case device_add_disconnect_watch (btd_dev dev) of
           (d, h) \<Rightarrow> dev\<lparr>btd_dev := d, priv := (priv dev)\<lparr>dc_id := h\<rparr>\<rparr>)
      else dev)"

text \<open>The pending disconnect request is answered when the state becomes Disconnected.\<close>

definition set_state_dc_req :: "audio_device \<Rightarrow> audio_state_t \<Rightarrow> audio_device \<times> audio_effect list" where
  "set_state_dc_req dev new_state =
     (if new_state = AUDIO_STATE_DISCONNECTED then
        (case dc_req (priv dev) of
           Some m \<Rightarrow>
             (dev\<lparr>priv := (priv dev)\<lparr>dc_req := None, disconnecting := False\<rparr>\<rparr>,
              [SendMessage m BtdMethodReturn])
         | None \<Rightarrow> (dev\<lparr>priv := (priv dev)\<lparr>disconnecting := False\<rparr>\<rparr>, []))
      else (dev, []))"

text \<open>The pending connect request is answered when the state leaves Connecting.\<close>

definition set_state_conn_req :: "audio_device \<Rightarrow> audio_state_t \<Rightarrow> audio_device \<times> audio_effect list" where
  "set_state_conn_req dev new_state =
     (case conn_req (priv dev) of
        Some m \<Rightarrow>
          if new_state \<noteq> AUDIO_STATE_CONNECTING then
            (dev\<lparr>priv := (priv dev)\<lparr>conn_req := None\<rparr>\<rparr>,
             [SendMessage m (if new_state = AUDIO_STATE_CONNECTED then BtdMethodReturn
                             else BtdFailed ''Connect Failed'')])
          else (dev, [])
      | None \<Rightarrow> (dev, []))"

definition device_set_state :: "audio_device \<Rightarrow> audio_state_t \<Rightarrow> audio_device \<times> audio_effect list" where
  "device_set_state dev new_state =
     (let dev1 = set_state_watch dev new_state
      in if state (priv dev1) = new_state then (dev1, [])
         else
           let dev2 = dev1\<lparr>priv := (priv dev1)\<lparr>state := new_state\<rparr>\<rparr>
           in (case set_state_dc_req dev2 new_state of
                 (dev3, tr1) \<Rightarrow>
                   (case set_state_conn_req dev3 new_state of
                      (dev4, tr2) \<Rightarrow>
                        (dev4, tr1 @ tr2 @ [EmitPropertyChanged (state2str new_state)]))))"

definition device_set_control_timer :: "audio_device \<Rightarrow> nat \<Rightarrow> audio_device \<times> audio_effect list" where
  "device_set_control_timer dev source =
     (if \<not> control dev then (dev, [])
      else if control_timer (priv dev) \<noteq> 0 then (dev, [])
      else (dev\<lparr>priv := (priv dev)\<lparr>control_timer := source\<rparr>\<rparr>, [TimeoutAddSeconds 2 source]))"

text \<open>
  The three callbacks through which the sub-profiles reach the device. For the AVDTP
  callback, \<open>setup_active\<close> is \<^verbatim>\<open>avdtp_stream_setup_active(session)\<close> and \<open>source\<close>
  the id a new timeout would get.
\<close>

definition device_avdtp_cb ::
  "audio_device \<Rightarrow> avdtp_session_state_t \<Rightarrow> avdtp_session_state_t \<Rightarrow> bool \<Rightarrow> nat
     \<Rightarrow> audio_device \<times> audio_effect list" where
  "device_avdtp_cb dev old_state new_state setup_active source =
     (if \<not> control dev then (dev, [])
      else if new_state = AVDTP_SESSION_STATE_CONNECTED then
        (if setup_active then device_set_control_timer dev source else (dev, [AvrcpConnect]))
      else (dev, []))"

definition device_sink_cb ::
  "audio_device \<Rightarrow> sink_state_t \<Rightarrow> sink_state_t \<Rightarrow> audio_device \<times> audio_effect list" where
  "device_sink_cb dev old_state new_state =
     (if \<not> sink dev then (dev, [])
      else
        let dev1 = dev\<lparr>priv := (priv dev)\<lparr>sink_state := new_state\<rparr>\<rparr>
        in (case new_state of
              SINK_STATE_DISCONNECTED \<Rightarrow>
                (case (if control dev1
                       then (case device_remove_control_timer dev1 of
                               (d, tr) \<Rightarrow> (d, tr @ [AvrcpDisconnect]))
                       else (dev1, [])) of
                   (dev2, tr) \<Rightarrow>
                     (case device_set_state dev2 AUDIO_STATE_DISCONNECTED of
                        (dev3, tr') \<Rightarrow> (dev3, tr @ tr')))
            | SINK_STATE_CONNECTING \<Rightarrow>
                (case device_remove_avdtp_timer dev1 of
                   (dev2, tr) \<Rightarrow>
                     (case device_set_state dev2 AUDIO_STATE_CONNECTING of
                        (dev3, tr') \<Rightarrow> (dev3, tr @ tr')))
            | SINK_STATE_CONNECTED \<Rightarrow>
                if old_state = SINK_STATE_PLAYING then (dev1, [])
                else device_set_state dev1 AUDIO_STATE_CONNECTED
            | SINK_STATE_PLAYING \<Rightarrow> (dev1, [])))"

definition device_avctp_cb ::
  "audio_device \<Rightarrow> avctp_state_t \<Rightarrow> avctp_state_t \<Rightarrow> audio_device \<times> audio_effect list" where
  "device_avctp_cb dev old_state new_state =
     (if \<not> control dev then (dev, [])
      else
        let dev1 = dev\<lparr>priv := (priv dev)\<lparr>avctp_state := new_state\<rparr>\<rparr>
        in (case new_state of
              AVCTP_STATE_DISCONNECTED \<Rightarrow> (dev1, [])
            | AVCTP_STATE_CONNECTING \<Rightarrow> device_remove_control_timer dev1
            | AVCTP_STATE_CONNECTED \<Rightarrow> (dev1, [])))"

text \<open>
  \<^verbatim>\<open>sink_setup_stream\<close> belongs to the sink sub-profile. What it does to this device
  before it returns is the sequence of callbacks it triggers, which the environment
  of \<open>dev_connect\<close> lists; \<open>avdtp_get_ok\<close> tells whether \<^verbatim>\<open>avdtp_get\<close> yields a session.
\<close>

datatype callback =
    SinkCb sink_state_t sink_state_t
  | AvctpCb avctp_state_t avctp_state_t
  | AvdtpCb avdtp_session_state_t avdtp_session_state_t bool nat

fun run_callback :: "audio_device \<Rightarrow> callback \<Rightarrow> audio_device \<times> audio_effect list" where
  "run_callback dev (SinkCb old new) = device_sink_cb dev old new"
| "run_callback dev (AvctpCb old new) = device_avctp_cb dev old new"
| "run_callback dev (AvdtpCb old new setup_active source) =
     device_avdtp_cb dev old new setup_active source"

fun run_callbacks :: "audio_device \<Rightarrow> callback list \<Rightarrow> audio_device \<times> audio_effect list" where
  "run_callbacks dev [] = (dev, [])"
| "run_callbacks dev (c # cs) =
     (case run_callback dev c of
        (dev1, tr) \<Rightarrow> (case run_callbacks dev1 cs of (dev2, tr') \<Rightarrow> (dev2, tr @ tr')))"

record audio_env =
  avdtp_get_ok :: bool
  setup_callbacks :: "callback list"

text \<open>
  \<open>disconnect_cb\<close> is what the registered watch calls when the underlying device
  disconnects: it starts the disconnection of the sub-profiles and registers nothing.
\<close>

definition disconnect_cb :: "audio_device \<Rightarrow> audio_device \<times> audio_effect list" where
  "disconnect_cb dev =
     (if state (priv dev) = AUDIO_STATE_DISCONNECTED then (dev, [])
      else if disconnecting (priv dev) then (dev, [])
      else
        let dev1 = dev\<lparr>priv := (priv dev)\<lparr>disconnecting := True\<rparr>\<rparr>
        in (case device_remove_control_timer dev1 of
              (dev2, tr1) \<Rightarrow>
                (case device_remove_avdtp_timer dev2 of
                   (dev3, tr2) \<Rightarrow>
                     (case device_remove_headset_timer dev3 of
                        (dev4, tr3) \<Rightarrow>
                          let tr = tr1 @ tr2 @ tr3 @ (if control dev4 then [AvrcpDisconnect] else [])
                          in if sink dev4 \<and> sink_state (priv dev4) \<noteq> SINK_STATE_DISCONNECTED
                               then (dev4, tr @ [SinkDisconnect])
                             else (dev4\<lparr>priv := (priv dev4)\<lparr>disconnecting := False\<rparr>\<rparr>, tr)))))"

text \<open>The end of \<open>dev_connect\<close>, after the stream setup was started.\<close>

definition dev_connect_finish ::
  "audio_device \<Rightarrow> dbus_message \<Rightarrow> audio_effect list
     \<Rightarrow> btd_reply option \<times> audio_device \<times> audio_effect list" where
  "dev_connect_finish dev msg tr =
     (if state (priv dev) \<noteq> AUDIO_STATE_CONNECTING
        then (Some (BtdFailed ''Connect Failed''), dev, tr)
      else (None, dev\<lparr>priv := (priv dev)\<lparr>conn_req := Some msg\<rparr>\<rparr>, tr))"

definition dev_connect ::
  "audio_env \<Rightarrow> audio_device \<Rightarrow> dbus_message
     \<Rightarrow> btd_reply option \<times> audio_device \<times> audio_effect list" where
  "dev_connect env dev msg =
     (if state (priv dev) = AUDIO_STATE_CONNECTING then (Some BtdInProgress, dev, [])
      else if state (priv dev) = AUDIO_STATE_CONNECTED then (Some BtdAlreadyConnected, dev, [])
      else
        let dev1 = dev\<lparr>auto_connect := True\<rparr>
        in if state (priv dev1) \<noteq> AUDIO_STATE_CONNECTING \<and> sink dev1 then
             (if \<not> avdtp_get_ok env
                then (Some (BtdFailed ''Failed to get AVDTP session''), dev1, [AvdtpGet False])
              else
                (case run_callbacks dev1 (setup_callbacks env) of
                   (dev2, tr) \<Rightarrow>
                     dev_connect_finish dev2 msg
                       ([AvdtpGet True, SinkSetupStream] @ tr @ [AvdtpUnref])))
           else dev_connect_finish dev1 msg [])"

text \<open>A run of \<open>device_set_state\<close> calls, one after the other.\<close>

fun set_states :: "audio_device \<Rightarrow> audio_state_t list \<Rightarrow> audio_device" where
  "set_states dev [] = dev"
| "set_states dev (st # sts) = set_states (fst (device_set_state dev st)) sts"

section \<open>Reading traces, and concrete adapters for the examples\<close>

lemmas mode_consts =
  MODE_OFF_def MODE_CONNECTABLE_def MODE_DISCOVERABLE_def MODE_LIMITED_def MODE_UNKNOWN_def
  SCAN_DISABLED_def SCAN_INQUIRY_def SCAN_PAGE_def

lemmas set_mode_defs =
  set_mode_def set_mode_down_def set_mode_scan_def set_mode_done_def scan_enable_of_def

fun replies_of :: "effect list \<Rightarrow> (dbus_message \<times> reply) list" where
  "replies_of [] = []"
| "replies_of (SendReply m r # tr) = (m, r) # replies_of tr"
| "replies_of (e # tr) = replies_of tr"

definition method_call :: "string \<Rightarrow> string \<Rightarrow> dbus_arg list \<Rightarrow> dbus_message" where
  "method_call sender member args =
     \<lparr>msg_sender = sender, msg_path = ''/org/bluez/hci0'', msg_member = member,
      msg_args = args\<rparr>"

text \<open>An environment in which every outside call succeeds, under the no-scan off-mode.\<close>

definition env_ok :: hci_env where
  "env_ok =
     \<lparr>offmode = HCID_OFFMODE_NOSCAN, read_on_mode = (\<lambda>addr. None), hci_open_dev_r = 3,
      ioctl_devup_r = 0, ioctl_devup_errno = 0, ioctl_devdown_r = 0, ioctl_devdown_errno = 0,
      set_limited_discoverable_r = 0, hci_send_req_r = 0, hci_send_req_errno = 0,
      hci_status_r = 0, g_timeout_add_r = 7, add_disconnect_watch_r = 5,
      agent_confirm_mode_change_r = 0\<rparr>"

text \<open>
  An adapter that is up and connectable, with an agent, no session, no discovery and
  no bonding, and a discoverable timeout of 180 seconds.
\<close>

definition adapter_idle :: adapter where
  "adapter_idle =
     \<lparr>address = ''00:11:22:33:44:55'', up = True, mode = MODE_CONNECTABLE,
      global_mode = MODE_CONNECTABLE, scan_enable = SCAN_PAGE, discov_timeout = 180,
      timeout_id = 0, sessions = [], agent = True, discov_active = False,
      pdiscov_active = False, discov_type = 0, discov_requestor = None, discov_listener = 0,
      found_devices = [], bonding = None, pin_reqs = [], devices = []\<rparr>"

text \<open>The same environment, but the controller answers write-scan-enable with status 0x0c.\<close>

definition env_status_fail :: hci_env where
  "env_status_fail = env_ok\<lparr>hci_status_r := 0x0c\<rparr>"

definition set_mode_call :: "string \<Rightarrow> dbus_message" where
  "set_mode_call name = method_call '':1.9'' ''SetMode'' [ArgString name]"

text \<open>The session of the client :1.7 asking for discoverable mode, and its two calls.\<close>

definition request_call :: dbus_message where
  "request_call = method_call '':1.7'' ''RequestMode'' [ArgString ''discoverable'']"

definition release_call :: dbus_message where
  "release_call = method_call '':1.7'' ''ReleaseMode'' []"

definition session_req :: mode_req where
  "session_req = \<lparr>req_msg = request_call, req_mode = MODE_DISCOVERABLE, req_id = 5\<rparr>"

text \<open>A limited-discoverable adapter: both scans are already enabled.\<close>

definition adapter_limited :: adapter where
  "adapter_limited = adapter_idle\<lparr>mode := MODE_LIMITED, scan_enable := SCAN_PAGE OR SCAN_INQUIRY\<rparr>"

text \<open>A discoverable adapter that holds one session and has lost its agent.\<close>

definition adapter_held :: adapter where
  "adapter_held =
     adapter_idle\<lparr>mode := MODE_DISCOVERABLE, global_mode := MODE_DISCOVERABLE,
       scan_enable := SCAN_PAGE OR SCAN_INQUIRY, sessions := [session_req], agent := False\<rparr>"

text \<open>Discovery and bonding environments in which every outside call succeeds.\<close>

definition disc_env_ok :: disc_env where
  "disc_env_ok =
     \<lparr>found_device_cmp = (\<lambda>d m. if name_status d = name_status m then 0 else 1),
      cancel_open_dev_r = 3, read_remote_name_cancel_r = 0, read_remote_name_cancel_errno = 0,
      inq_open_dev_r = 3, inq_send_req_r = 0, inq_send_req_errno = 0, inq_status_r = 0,
      inq_watch_r = 6\<rparr>"

definition discover_call :: dbus_message where
  "discover_call = method_call '':1.7'' ''DiscoverDevices'' []"

definition bond_env_ok :: bond_env where
  "bond_env_ok =
     \<lparr>so_error_r = 0, so_error_errno = 0, so_error_val = 0, conninfo_r = 0, conninfo_errno = 0,
      bond_open_dev_r = 3, auth_send_req_r = 0, auth_send_req_errno = 0, auth_status_r = 0,
      io_add_watch_r = 8, ba2str = (\<lambda>bd. ''00:1A:7D:DA:71:13''),
      str2ba = (\<lambda>s. if s = ''00:1A:7D:DA:71:13'' then 0x001A7DDA7113 else 0),
      check_address = (\<lambda>s. if length s = 17 then 0 else - 1)\<rparr>"

text \<open>A bonding with 00:1A:7D:DA:71:13 requested by the client :1.7.\<close>

definition bonding_call :: dbus_message where
  "bonding_call = method_call '':1.7'' ''CreateBonding'' [ArgString ''00:1A:7D:DA:71:13'']"

definition cancel_call :: "string \<Rightarrow> dbus_message" where
  "cancel_call sender =
     method_call sender ''CancelBondingProcess'' [ArgString ''00:1A:7D:DA:71:13'']"

definition bonding_new :: bonding_request_info where
  "bonding_new =
     \<lparr>bonding_msg = bonding_call, bdaddr = 0x001A7DDA7113, io_id = 8, listener_id = 9,
      hci_status = 0, cancel = False, auth_active = False\<rparr>"

definition adapter_bonding :: adapter where
  "adapter_bonding = adapter_idle\<lparr>bonding := Some bonding_new\<rparr>"

text \<open>A freshly registered audio device with a sink and a control sub-profile.\<close>

definition audio_device_new :: audio_device where
  "audio_device_new =
     \<lparr>btd_dev = \<lparr>watches = [], last_watch = 0\<rparr>, sink = True, control = True,
      auto_connect = False,
      priv = \<lparr>state = AUDIO_STATE_DISCONNECTED, sink_state = SINK_STATE_DISCONNECTED,
              avctp_state = AVCTP_STATE_DISCONNECTED, conn_req = None, dc_req = None,
              control_timer = 0, avdtp_timer = 0, headset_timer = 0, dc_id = 0,
              disconnecting = False\<rparr>\<rparr>"

definition connect_call :: dbus_message where
  "connect_call =
     \<lparr>msg_sender = '':1.7'', msg_path = ''/org/bluez/hci0/dev_00_1A_7D_DA_71_13'',
      msg_member = ''Connect'', msg_args = []\<rparr>"

definition pin_replied :: pending_pin_info where
  "pin_replied = \<lparr>pin_bdaddr = 0x001A7DDA7113, replied = True\<rparr>"

text \<open>
  Two behaviours of the stream setup: one that moves the sink to Connecting before it
  returns, and one that triggers no callback.
\<close>

definition env_connecting :: audio_env where
  "env_connecting =
     \<lparr>avdtp_get_ok = True,
      setup_callbacks = [SinkCb SINK_STATE_DISCONNECTED SINK_STATE_CONNECTING]\<rparr>"

definition env_silent :: audio_env where
  "env_silent = \<lparr>avdtp_get_ok = True, setup_callbacks = []\<rparr>"

definition with_state :: "audio_device \<Rightarrow> audio_state_t \<Rightarrow> audio_device" where
  "with_state dev st = dev\<lparr>priv := (priv dev)\<lparr>state := st\<rparr>\<rparr>"

lemmas example_defs =
  env_ok_def env_status_fail_def adapter_idle_def adapter_limited_def adapter_held_def
  method_call_def set_mode_call_def request_call_def release_call_def session_req_def
  disc_env_ok_def discover_call_def bond_env_ok_def bonding_call_def cancel_call_def
  bonding_new_def adapter_bonding_def pin_replied_def

lemmas audio_defs =
  dev_connect_def dev_connect_finish_def device_sink_cb_def device_avctp_cb_def
  device_avdtp_cb_def device_set_state_def set_state_watch_def set_state_dc_req_def
  set_state_conn_req_def device_add_disconnect_watch_def device_remove_disconnect_watch_def
  device_remove_control_timer_def device_remove_avdtp_timer_def state2str_def
  env_connecting_def env_silent_def with_state_def audio_device_new_def connect_call_def

section \<open>Properties\<close>

subsection \<open>Mode names\<close>

lemma tolower_idem: "tolower (tolower c) = tolower c"
  unfolding tolower_def by (simp split: option.splits if_splits)

lemma strcasecmp_zero: "strcasecmp a b = 0 \<longleftrightarrow> map tolower a = map tolower b"
  by (induction a b rule: strcasecmp.induct) auto

lemma str2mode_on:
  assumes "strcasecmp ''on'' name = 0"
  shows "str2mode rd addr name = on_mode rd addr"
proof -
  from assms have "map tolower name = ''on''"
    by (simp add: strcasecmp_zero tolower_def)
  then have "strcasecmp ''off'' name \<noteq> 0" "strcasecmp ''connectable'' name \<noteq> 0"
    "strcasecmp ''discoverable'' name \<noteq> 0" "strcasecmp ''limited'' name \<noteq> 0"
    by (simp_all add: strcasecmp_zero tolower_def)
  with assms show ?thesis
    by (subst str2mode.simps) (simp add: on_mode_def)
qed

text \<open>
  A call that returns never went through a stored on-mode that is "on" again; with such
  a stored value, parsing "on" does not return.
\<close>

lemma str2mode_stored_on:
  assumes "str2mode rd addr s = Some m"
  shows "\<not> (rd addr = Some ''on'' \<and> strcasecmp ''on'' s = 0)"
  using assms
proof (induction rd addr s m rule: str2mode.raw_induct [rotated 1, consumes 1])
  case (1 f rd addr name m)
  note ih = 1(1) and body = 1(2)
  show ?case
  proof
    assume on: "rd addr = Some ''on'' \<and> strcasecmp ''on'' name = 0"
    then have low: "map tolower name = ''on''"
      by (simp add: strcasecmp_zero tolower_def)
    then have "strcasecmp ''off'' name \<noteq> 0" "strcasecmp ''connectable'' name \<noteq> 0"
      "strcasecmp ''discoverable'' name \<noteq> 0" "strcasecmp ''limited'' name \<noteq> 0"
      by (simp_all add: strcasecmp_zero tolower_def)
    with body on have "f rd addr ''on'' = Some m" by simp
    from ih [OF this] on show False by (simp add: tolower_def)
  qed
qed

lemma str2mode_on_loops: "str2mode (\<lambda>a. Some ''on'') addr ''on'' = None"
proof (cases "str2mode (\<lambda>a. Some ''on'') addr ''on''")
  case None
  then show ?thesis .
next
  case (Some m)
  from str2mode_stored_on [OF this] show ?thesis by (simp add: tolower_def)
qed

lemma str2mode_folds_case: "str2mode rd addr s = str2mode rd addr (map tolower s)"
  by (subst (1 2) str2mode.simps) (simp add: strcasecmp_zero tolower_idem)

lemma str2mode_unknown:
  assumes "map tolower s \<notin> {''off'', ''connectable'', ''discoverable'', ''limited'', ''on''}"
  shows "str2mode rd addr s = Some MODE_UNKNOWN"
proof -
  have low: "map tolower ''off'' = ''off''" "map tolower ''connectable'' = ''connectable''"
    "map tolower ''discoverable'' = ''discoverable''" "map tolower ''limited'' = ''limited''"
    "map tolower ''on'' = ''on''"
    by (simp_all add: tolower_def)
  from assms have "strcasecmp ''off'' s \<noteq> 0" "strcasecmp ''connectable'' s \<noteq> 0"
    "strcasecmp ''discoverable'' s \<noteq> 0" "strcasecmp ''limited'' s \<noteq> 0"
    "strcasecmp ''on'' s \<noteq> 0"
    unfolding strcasecmp_zero low by auto
  then show ?thesis
    by (subst str2mode.simps) simp
qed

lemma str2mode_mode2str_known:
  assumes "m \<in> {MODE_OFF, MODE_CONNECTABLE, MODE_DISCOVERABLE, MODE_LIMITED}"
  shows "str2mode rd addr (mode2str m) = Some m"
  using assms
  by (subst str2mode.simps)
     (auto simp: mode2str_def tolower_def MODE_OFF_def MODE_CONNECTABLE_def
        MODE_DISCOVERABLE_def MODE_LIMITED_def)

text \<open>
  C10. For each of the four modes Off, Connectable, Discoverable and Limited, and any
  adapter address and stored on-mode, parsing the mode's name gives the mode back.
  \<open>str2mode\<close> ignores case (a string and its lower-case form parse alike), and a
  string that is none of off, connectable, discoverable, limited, on up to case parses
  to the unknown mode.
\<close>

theorem str2mode_roundtrip:
  "(m \<in> {MODE_OFF, MODE_CONNECTABLE, MODE_DISCOVERABLE, MODE_LIMITED}
      \<longrightarrow> str2mode rd addr (mode2str m) = Some m)
   \<and> str2mode rd addr s = str2mode rd addr (map tolower s)
   \<and> (map tolower s \<notin> {''off'', ''connectable'', ''discoverable'', ''limited'', ''on''}
      \<longrightarrow> str2mode rd addr s = Some MODE_UNKNOWN)"
  using str2mode_mode2str_known [of m rd addr] str2mode_folds_case [of rd addr s]
    str2mode_unknown [of s rd addr]
  by blast

theorem str2mode_roundtrip_witness:
  "MODE_LIMITED \<in> {MODE_OFF, MODE_CONNECTABLE, MODE_DISCOVERABLE, MODE_LIMITED}
   \<and> str2mode (\<lambda>_. None) ''00:11:22:33:44:55'' (mode2str MODE_LIMITED) = Some MODE_LIMITED
   \<and> str2mode (\<lambda>_. None) ''00:11:22:33:44:55'' ''Bogus''
       = str2mode (\<lambda>_. None) ''00:11:22:33:44:55'' (map tolower ''Bogus'')
   \<and> map tolower ''Bogus'' \<notin> {''off'', ''connectable'', ''discoverable'', ''limited'', ''on''}
   \<and> str2mode (\<lambda>_. None) ''00:11:22:33:44:55'' ''Bogus'' = Some MODE_UNKNOWN"
proof -
  have h1: "MODE_LIMITED \<in> {MODE_OFF, MODE_CONNECTABLE, MODE_DISCOVERABLE, MODE_LIMITED}"
    by simp
  have h2: "map tolower ''Bogus'' \<notin> {''off'', ''connectable'', ''discoverable'', ''limited'', ''on''}"
    by (simp add: tolower_def)
  show ?thesis
    using h1 h2
      str2mode_roundtrip [of MODE_LIMITED "\<lambda>_. None" "''00:11:22:33:44:55''" "''Bogus''"]
    by blast
qed

subsection \<open>Committing a mode\<close>

lemma replies_of_append: "replies_of (tr @ tr') = replies_of tr @ replies_of tr'"
  by (induction tr rule: replies_of.induct) simp_all

lemma set_mode_scan_commit:
  assumes "\<not> list_ex failed_step tr"
    and "set_mode_scan env a msg nm scan tr = (r, a', tr')"
  shows "if list_ex failed_step tr' then r \<noteq> MethodReturn \<and> a' = a
         else r = MethodReturn \<and> mode a' = nm"
  using assms by (auto simp: set_mode_scan_def set_mode_done_def Let_def split: if_splits)

lemma set_mode_down_commit:
  assumes "\<not> list_ex failed_step tr"
    and "set_mode_down env a msg nm scan tr = (r, a', tr')"
  shows "if list_ex failed_step tr' then r \<noteq> MethodReturn \<and> a' = a
         else r = MethodReturn \<and> mode a' = nm"
proof (cases "up a \<and> scan = SCAN_DISABLED \<and> offmode env = HCID_OFFMODE_DEVDOWN")
  case True
  with assms show ?thesis
    by (auto simp: set_mode_down_def set_mode_done_def Let_def split: if_splits)
next
  case False
  with assms(2) have "set_mode_scan env a msg nm scan tr = (r, a', tr')"
    by (auto simp: set_mode_down_def)
  with assms(1) show ?thesis by (rule set_mode_scan_commit)
qed

lemma set_mode_commit:
  assumes "set_mode env a msg nm = (r, a', tr')"
  shows "if list_ex failed_step tr' then r \<noteq> MethodReturn \<and> a' = a
         else if scan_enable_of nm = None then r = InvalidArguments \<and> a' = a \<and> tr' = []
         else r = MethodReturn \<and> mode a' = nm"
proof (cases "scan_enable_of nm")
  case None
  with assms show ?thesis by (auto simp: set_mode_def)
next
  case (Some scan)
  let ?tr = "[HciOpenDev (hci_open_dev_r env)]"
  let ?tr1 = "?tr @ [IoctlDevUp (ioctl_devup_r env) (ioctl_devup_errno env)]"
  consider (nodev) "hci_open_dev_r env < 0"
    | (upfail) "\<not> hci_open_dev_r env < 0" "(r, a', tr') =
         (FailedStrerror (Errno (ioctl_devup_errno env)), a, ?tr1 @ [HciCloseDev])"
         "ioctl_devup_r env \<noteq> 0" "ioctl_devup_errno env \<noteq> EALREADY"
    | (updone) "\<not> hci_open_dev_r env < 0" "ioctl_devup_r env = 0"
         "set_mode_done a nm ?tr1 = (r, a', tr')"
    | (already) "\<not> hci_open_dev_r env < 0" "ioctl_devup_errno env = EALREADY"
         "set_mode_down env a msg nm scan ?tr1 = (r, a', tr')"
    | (down) "\<not> hci_open_dev_r env < 0" "set_mode_down env a msg nm scan ?tr = (r, a', tr')"
    using assms Some by (auto simp: set_mode_def Let_def split: if_splits)
  then show ?thesis
  proof cases
    case nodev
    with assms Some show ?thesis by (auto simp: set_mode_def Let_def)
  next
    case upfail
    then show ?thesis by auto
  next
    case updone
    with Some show ?thesis by (auto simp: set_mode_done_def)
  next
    case already
    have "\<not> list_ex failed_step ?tr1" using already by simp
    from set_mode_down_commit [OF this already(3)] Some show ?thesis by simp
  next
    case down
    have "\<not> list_ex failed_step ?tr" using down by simp
    from set_mode_down_commit [OF this down(2)] Some show ?thesis by simp
  qed
qed

lemma set_mode_error_keeps_adapter:
  assumes "set_mode env a msg nm = (r, a', tr')" and "r \<noteq> MethodReturn"
  shows "a' = a"
  using set_mode_commit [OF assms(1)] assms(2) by (auto split: if_splits)

lemma adapter_set_mode_failure:
  assumes "adapter_set_mode env a msg = Some (a', tr)" and "list_ex failed_step tr"
  shows "mode a' = mode a \<and> (\<exists>r. r \<noteq> MethodReturn \<and> replies_of tr = [(msg, r)])"
proof -
  from assms obtain s gm where s: "get_string_arg msg = Some s"
    and gm: "str2mode (read_on_mode env) (address a) s = Some gm"
    by (auto simp: adapter_set_mode_def split: option.splits)
  let ?a1 = "a\<lparr>global_mode := gm\<rparr>"
  have ne: "gm \<noteq> mode a" using assms s gm by (auto simp: adapter_set_mode_def Let_def)
  have noconf: "\<not> (sessions a \<noteq> [] \<and> gm < mode a)"
  proof
    assume c: "sessions a \<noteq> [] \<and> gm < mode a"
    with assms(1) s gm ne obtain r0 tr0 where
      "confirm_mode env ?a1 msg s = Some (r0, tr0)" "tr = tr0 @ send_message_and_unref msg r0"
      by (auto simp: adapter_set_mode_def Let_def split: option.splits)
    then have "\<not> list_ex failed_step tr"
      by (auto simp: confirm_mode_def send_message_and_unref_def Let_def
            split: if_splits option.splits)
    with assms(2) show False by simp
  qed
  with assms(1) s gm ne obtain r tr0 where sm: "set_mode env ?a1 msg gm = (r, a', tr0)"
    and tr: "tr = tr0 @ [SendReply msg r]"
    by (auto simp: adapter_set_mode_def Let_def split: option.splits prod.splits)
  from tr assms(2) have failed: "list_ex failed_step tr0" by simp
  from set_mode_commit [OF sm] failed have "r \<noteq> MethodReturn" "a' = ?a1" by auto
  moreover from set_mode_commit [OF sm] failed have "replies_of tr0 = []"
    using sm
    by (auto simp: set_mode_defs Let_def replies_of_append split: if_splits option.splits)
  ultimately show ?thesis using tr by (auto simp: replies_of_append)
qed

text \<open>
  C3. A run of \<open>set_mode\<close> (CommitMode) in which a hardware step fails (opening the
  link, the power-up ioctl with an errno other than EALREADY, the power-down ioctl, the
  limited-discoverable command, sending write-scan-enable, or a nonzero status in its
  reply) returns an error reply and leaves the adapter, so its mode, as it was. Any
  error reply leaves the mode unchanged, and a success reply means that the mode is
  the requested one and that no step of the trace failed. A run of SetMode
  (\<open>adapter_set_mode\<close>) with a failed hardware step sends exactly one reply, an error
  to the caller, and leaves the mode unchanged.
\<close>

theorem set_mode_no_partial_commit:
  "(set_mode env a msg new_mode = (r, a', tr) \<longrightarrow>
      ((\<exists>e \<in> set tr. failed_step e) \<longrightarrow> r \<noteq> MethodReturn \<and> a' = a)
      \<and> (r \<noteq> MethodReturn \<longrightarrow> mode a' = mode a)
      \<and> (r = MethodReturn \<longrightarrow> mode a' = new_mode \<and> (\<forall>e \<in> set tr. \<not> failed_step e)))
   \<and> (adapter_set_mode env a msg = Some (a2, tr2) \<longrightarrow> (\<exists>e \<in> set tr2. failed_step e) \<longrightarrow>
        mode a2 = mode a \<and> (\<exists>r2. r2 \<noteq> MethodReturn \<and> replies_of tr2 = [(msg, r2)]))"
proof -
  have part1: "((\<exists>e \<in> set tr. failed_step e) \<longrightarrow> r \<noteq> MethodReturn \<and> a' = a)
      \<and> (r \<noteq> MethodReturn \<longrightarrow> mode a' = mode a)
      \<and> (r = MethodReturn \<longrightarrow> mode a' = new_mode \<and> (\<forall>e \<in> set tr. \<not> failed_step e))"
    if sm: "set_mode env a msg new_mode = (r, a', tr)"
  proof -
    note c = set_mode_commit [OF sm]
    have "r \<noteq> MethodReturn \<and> a' = a" if "\<exists>e \<in> set tr. failed_step e"
      using c that by (auto simp: list_ex_iff)
    moreover have "mode a' = mode a" if "r \<noteq> MethodReturn"
      using set_mode_error_keeps_adapter [OF sm that] by simp
    moreover have "mode a' = new_mode \<and> (\<forall>e \<in> set tr. \<not> failed_step e)" if "r = MethodReturn"
      using c that by (auto simp: list_ex_iff split: if_splits)
    ultimately show ?thesis by blast
  qed
  have part2: "mode a2 = mode a \<and> (\<exists>r2. r2 \<noteq> MethodReturn \<and> replies_of tr2 = [(msg, r2)])"
    if "adapter_set_mode env a msg = Some (a2, tr2)" "\<exists>e \<in> set tr2. failed_step e"
    using adapter_set_mode_failure [of env a msg a2 tr2] that by (simp add: list_ex_iff)
  from part1 part2 show ?thesis by blast
qed

theorem set_mode_no_partial_commit_witness:
  "set_mode env_status_fail adapter_idle (set_mode_call ''discoverable'') MODE_DISCOVERABLE
     = (FailedStrerror (BtError 0x0c), adapter_idle,
        [HciOpenDev 3, SetLimitedDiscoverable False 0, WriteScanEnable 3 0 0x0c, HciCloseDev])
   \<and> failed_step (WriteScanEnable 3 0 0x0c)
   \<and> set_mode env_ok adapter_idle (set_mode_call ''discoverable'') MODE_DISCOVERABLE
     = (MethodReturn, adapter_idle\<lparr>mode := MODE_DISCOVERABLE\<rparr>,
        [HciOpenDev 3, SetLimitedDiscoverable False 0, WriteScanEnable 3 0 0,
         WriteDeviceMode ''00:11:22:33:44:55'' ''discoverable'', HciCloseDev])
   \<and> adapter_set_mode env_status_fail adapter_idle (set_mode_call ''discoverable'')
     = Some (adapter_idle\<lparr>global_mode := MODE_DISCOVERABLE\<rparr>,
        [HciOpenDev 3, SetLimitedDiscoverable False 0, WriteScanEnable 3 0 0x0c, HciCloseDev,
         SendReply (set_mode_call ''discoverable'') (FailedStrerror (BtError 0x0c))])
   \<and> mode (adapter_idle\<lparr>global_mode := MODE_DISCOVERABLE\<rparr>) = mode adapter_idle
   \<and> \<not> list_ex failed_step
         [HciOpenDev 3, SetLimitedDiscoverable False 0, WriteScanEnable 3 0 0,
          WriteDeviceMode ''00:11:22:33:44:55'' ''discoverable'', HciCloseDev]"
proof -
  let ?m = "set_mode_call ''discoverable''"
  let ?trF = "[HciOpenDev 3, SetLimitedDiscoverable False 0, WriteScanEnable 3 0 0x0c, HciCloseDev]"
  let ?trS = "[HciOpenDev 3, SetLimitedDiscoverable False 0, WriteScanEnable 3 0 0,
         WriteDeviceMode ''00:11:22:33:44:55'' ''discoverable'', HciCloseDev]"
  have e1: "set_mode env_status_fail adapter_idle ?m MODE_DISCOVERABLE
     = (FailedStrerror (BtError 0x0c), adapter_idle, ?trF)"
    by (simp add: set_mode_defs mode2str_def mode_consts example_defs Let_def)
  have e2: "set_mode env_ok adapter_idle ?m MODE_DISCOVERABLE
     = (MethodReturn, adapter_idle\<lparr>mode := MODE_DISCOVERABLE\<rparr>, ?trS)"
    by (simp add: set_mode_defs mode2str_def mode_consts example_defs Let_def)
  have e3: "adapter_set_mode env_status_fail adapter_idle ?m
     = Some (adapter_idle\<lparr>global_mode := MODE_DISCOVERABLE\<rparr>,
         ?trF @ [SendReply ?m (FailedStrerror (BtError 0x0c))])"
    by (simp add: adapter_set_mode_def get_string_arg_def str2mode.simps tolower_def
          set_mode_defs mode2str_def mode_consts example_defs Let_def)
  have f: "\<exists>e \<in> set ?trF. failed_step e" by simp
  have f3: "\<exists>e \<in> set (?trF @ [SendReply ?m (FailedStrerror (BtError 0x0c))]). failed_step e" by simp
  from set_mode_no_partial_commit [of env_status_fail adapter_idle ?m MODE_DISCOVERABLE
      "FailedStrerror (BtError 0x0c)" adapter_idle ?trF
      "adapter_idle\<lparr>global_mode := MODE_DISCOVERABLE\<rparr>"
      "?trF @ [SendReply ?m (FailedStrerror (BtError 0x0c))]"] e1 e3 f f3
  have fail: "mode (adapter_idle\<lparr>global_mode := MODE_DISCOVERABLE\<rparr>) = mode adapter_idle"
    by blast
  from set_mode_no_partial_commit [of env_ok adapter_idle ?m MODE_DISCOVERABLE
      MethodReturn "adapter_idle\<lparr>mode := MODE_DISCOVERABLE\<rparr>" ?trS] e2
  have "\<forall>e \<in> set ?trS. \<not> failed_step e"
    by blast
  then have ok: "\<not> list_ex failed_step ?trS"
    by (simp only: list_ex_iff) blast
  from e1 e2 e3 fail ok show ?thesis by simp
qed

text \<open>
  C4. When \<open>set_mode\<close> enters Discoverable from Limited with both scans already
  enabled and no session, the code arms the discoverable-timeout timer exactly in the
  case the specification excludes: with a configured timeout of 0 it adds a timer of 0
  milliseconds and stores its id, and with a timeout of 180 seconds it adds none. The
  test in the source is \<^verbatim>\<open>!adapter->sessions && !adapter->discov_timeout\<close>.
\<close>

theorem set_mode_arms_timer_on_zero_timeout:
  "set_mode env_ok (adapter_limited\<lparr>discov_timeout := 0\<rparr>) (set_mode_call ''discoverable'')
       MODE_DISCOVERABLE
     = (MethodReturn,
        adapter_limited\<lparr>discov_timeout := 0, timeout_id := 7, mode := MODE_DISCOVERABLE\<rparr>,
        [HciOpenDev 3, SetLimitedDiscoverable False 0,
         EmitModeChanged ''/org/bluez/hci0'' ''discoverable'', GTimeoutAdd 0 7,
         WriteDeviceMode ''00:11:22:33:44:55'' ''discoverable'', HciCloseDev])
   \<and> set_mode env_ok adapter_limited (set_mode_call ''discoverable'') MODE_DISCOVERABLE
     = (MethodReturn, adapter_limited\<lparr>mode := MODE_DISCOVERABLE\<rparr>,
        [HciOpenDev 3, SetLimitedDiscoverable False 0,
         EmitModeChanged ''/org/bluez/hci0'' ''discoverable'',
         WriteDeviceMode ''00:11:22:33:44:55'' ''discoverable'', HciCloseDev])
   \<and> discov_timeout adapter_limited = 180 \<and> sessions adapter_limited = []"
  by (simp add: set_mode_defs mode2str_def mode_consts example_defs Let_def)

subsection \<open>SetMode while sessions hold the mode\<close>

text \<open>
  C2, as the code has it. When SetMode asks for a mode below the enacted one while a
  session is active and no agent is registered, \<open>confirm_mode\<close> answers success at
  once and never reaches \<open>set_mode\<close>: the call records the requested mode as
  \<open>global_mode\<close>, sends the success reply, touches no hardware and leaves the
  enacted mode as it was.
\<close>

theorem adapter_set_mode_without_agent:
  assumes "get_string_arg msg = Some s"
    and "str2mode (read_on_mode env) (address a) s = Some gm"
    and "sessions a \<noteq> []" and "gm < mode a" and "\<not> agent a"
  shows "adapter_set_mode env a msg = Some (a\<lparr>global_mode := gm\<rparr>, [SendReply msg MethodReturn])"
  using assms
  by (auto simp: adapter_set_mode_def confirm_mode_def send_message_and_unref_def Let_def)

theorem adapter_set_mode_without_agent_witness:
  "get_string_arg (set_mode_call ''connectable'') = Some ''connectable''
   \<and> str2mode (read_on_mode env_ok) (address adapter_held) ''connectable'' = Some MODE_CONNECTABLE
   \<and> sessions adapter_held \<noteq> [] \<and> MODE_CONNECTABLE < mode adapter_held \<and> \<not> agent adapter_held
   \<and> adapter_set_mode env_ok adapter_held (set_mode_call ''connectable'')
     = Some (adapter_held\<lparr>global_mode := MODE_CONNECTABLE\<rparr>,
             [SendReply (set_mode_call ''connectable'') MethodReturn])"
proof -
  have h1: "get_string_arg (set_mode_call ''connectable'') = Some ''connectable''"
    by (simp add: get_string_arg_def example_defs)
  have h2: "str2mode (read_on_mode env_ok) (address adapter_held) ''connectable'' = Some MODE_CONNECTABLE"
    by (simp add: str2mode.simps tolower_def)
  have h3: "sessions adapter_held \<noteq> []" by (simp add: example_defs)
  have h4: "MODE_CONNECTABLE < mode adapter_held" by (simp add: example_defs mode_consts)
  have h5: "\<not> agent adapter_held" by (simp add: example_defs)
  from adapter_set_mode_without_agent [OF h1 h2 h3 h4 h5] h1 h2 h3 h4 h5 show ?thesis by simp
qed

text \<open>
  The sentence of the specification fails here: a discoverable adapter with one session
  and no agent answers SetMode("connectable") with success and stays discoverable.
\<close>

theorem adapter_set_mode_without_agent_counterexample:
  "adapter_set_mode env_ok adapter_held (set_mode_call ''connectable'')
     = Some (adapter_held\<lparr>global_mode := MODE_CONNECTABLE\<rparr>,
             [SendReply (set_mode_call ''connectable'') MethodReturn])
   \<and> mode (adapter_held\<lparr>global_mode := MODE_CONNECTABLE\<rparr>) = MODE_DISCOVERABLE
   \<and> MODE_DISCOVERABLE \<noteq> MODE_CONNECTABLE"
  by (simp add: adapter_set_mode_def confirm_mode_def send_message_and_unref_def
        get_string_arg_def str2mode.simps tolower_def mode_consts example_defs Let_def)

subsection \<open>Releasing the last session\<close>

text \<open>
  The first session takes the snapshot, and \<open>session_exit\<close> changes neither mode
  whatever the adapter and the session are.
\<close>

lemma request_mode_first_session:
  assumes "request_mode env a msg = Some (r, a', tr)" and "sessions a = []"
    and "sessions a' \<noteq> []"
  shows "global_mode a' = mode a \<and> mode a' = mode a"
  using assms
  by (auto simp: request_mode_def Let_def split: option.splits if_splits)

lemma session_exit_keeps_modes:
  "mode (fst (session_exit a req)) = mode a
   \<and> global_mode (fst (session_exit a req)) = global_mode a
   \<and> snd (session_exit a req) = [FreeModeReq req]"
  by (simp add: session_exit_def)

text \<open>
  C1. A connectable adapter with an agent: the client :1.7 requests discoverable mode
  (the first session snapshots \<open>global_mode := mode\<close>), the agent confirms and
  \<open>set_mode\<close> makes the adapter discoverable, then the client releases its session
  (or leaves the bus, which runs \<open>session_exit\<close> directly). The sessions list is
  empty again, and the adapter stays discoverable while \<open>global_mode\<close> is
  connectable: the teardown issues no hardware step and no \<open>set_mode\<close>, because the
  fallback call is commented out in \<open>session_exit\<close>.
\<close>

theorem session_release_skips_fallback:
  "request_mode env_ok adapter_idle request_call
     = Some (None, adapter_idle\<lparr>sessions := [session_req]\<rparr>,
             [AddDisconnectWatch '':1.7'' 5, AgentConfirmModeChange ''discoverable'' session_req 0])
   \<and> confirm_mode_cb env_ok (adapter_idle\<lparr>sessions := [session_req]\<rparr>) None session_req
     = (adapter_idle\<lparr>sessions := [session_req], mode := MODE_DISCOVERABLE\<rparr>,
        [HciOpenDev 3, SetLimitedDiscoverable False 0, WriteScanEnable 3 0 0,
         WriteDeviceMode ''00:11:22:33:44:55'' ''discoverable'', HciCloseDev,
         SendReply request_call MethodReturn])
   \<and> release_mode (adapter_idle\<lparr>sessions := [session_req], mode := MODE_DISCOVERABLE\<rparr>) release_call
     = (MethodReturn, adapter_idle\<lparr>sessions := [], mode := MODE_DISCOVERABLE\<rparr>,
        [FreeModeReq session_req])
   \<and> session_exit (adapter_idle\<lparr>sessions := [session_req], mode := MODE_DISCOVERABLE\<rparr>) session_req
     = (adapter_idle\<lparr>sessions := [], mode := MODE_DISCOVERABLE\<rparr>, [FreeModeReq session_req])
   \<and> global_mode (adapter_idle\<lparr>sessions := [], mode := MODE_DISCOVERABLE\<rparr>) = MODE_CONNECTABLE
   \<and> mode (adapter_idle\<lparr>sessions := [], mode := MODE_DISCOVERABLE\<rparr>) = MODE_DISCOVERABLE
   \<and> MODE_CONNECTABLE \<noteq> MODE_DISCOVERABLE"
  by (simp add: request_mode_def confirm_mode_cb_def release_mode_def session_exit_def
        g_slist_find_custom_def find_session_def mode_req_cleanup_def
        get_string_arg_def str2mode.simps tolower_def set_mode_defs mode2str_def mode_consts example_defs Let_def not_le)

subsection \<open>DiscoverDevices\<close>

text \<open>
  C5, as the code has it. A DiscoverDevices call on an adapter that is down is
  rejected with NotReady, with no hardware command and the adapter unchanged (so no
  requestor recorded). On an adapter that is up, a call without arguments is rejected
  with InProgress when a standard discovery is active, and, when none is, when a
  bonding is in progress (no requestor is recorded then either). A periodic discovery
  does not enter the decision: the outcome is the same whatever \<open>pdiscov_active\<close> is.
\<close>

theorem discover_devices_guards:
  "(\<not> up a \<longrightarrow> adapter_discover_devices env a msg = (NotReady, a, []))
   \<and> (up a \<and> msg_args msg = [] \<and> discov_active a \<longrightarrow>
        adapter_discover_devices env a msg = (InProgress ''Discover in progress'', a, []))
   \<and> (up a \<and> msg_args msg = [] \<and> \<not> discov_active a \<and> bonding a \<noteq> None \<longrightarrow>
        fst (adapter_discover_devices env a msg) = InProgress ''Bonding in progress''
        \<and> discov_requestor (fst (snd (adapter_discover_devices env a msg))) = discov_requestor a)
   \<and> adapter_discover_devices env (a\<lparr>pdiscov_active := p\<rparr>) msg
       = (case adapter_discover_devices env a msg of
            (r, a', tr) \<Rightarrow> (r, a'\<lparr>pdiscov_active := p\<rparr>, tr))"
  by (auto simp: adapter_discover_devices_def pending_remote_name_cancel_def Let_def
        split: option.splits prod.splits)

theorem discover_devices_guards_witness:
  "\<not> up (adapter_idle\<lparr>up := False\<rparr>)
   \<and> adapter_discover_devices disc_env_ok (adapter_idle\<lparr>up := False\<rparr>) discover_call
       = (NotReady, adapter_idle\<lparr>up := False\<rparr>, [])
   \<and> up (adapter_idle\<lparr>discov_active := True\<rparr>) \<and> msg_args discover_call = []
   \<and> discov_active (adapter_idle\<lparr>discov_active := True\<rparr>)
   \<and> adapter_discover_devices disc_env_ok (adapter_idle\<lparr>discov_active := True\<rparr>) discover_call
       = (InProgress ''Discover in progress'', adapter_idle\<lparr>discov_active := True\<rparr>, [])
   \<and> up adapter_bonding \<and> \<not> discov_active adapter_bonding \<and> bonding adapter_bonding \<noteq> None
   \<and> fst (adapter_discover_devices disc_env_ok adapter_bonding discover_call)
       = InProgress ''Bonding in progress''
   \<and> discov_requestor (fst (snd (adapter_discover_devices disc_env_ok adapter_bonding discover_call)))
       = None"
proof -
  have h1: "\<not> up (adapter_idle\<lparr>up := False\<rparr>)" by simp
  have h2: "up (adapter_idle\<lparr>discov_active := True\<rparr>) \<and> msg_args discover_call = []
      \<and> discov_active (adapter_idle\<lparr>discov_active := True\<rparr>)"
    by (simp add: example_defs)
  have h3: "up adapter_bonding \<and> msg_args discover_call = [] \<and> \<not> discov_active adapter_bonding
      \<and> bonding adapter_bonding \<noteq> None"
    by (simp add: example_defs)
  have h4: "discov_requestor adapter_bonding = None" by (simp add: example_defs)
  from h1 h2 h3 h4
    discover_devices_guards [of "adapter_idle\<lparr>up := False\<rparr>" disc_env_ok discover_call]
    discover_devices_guards [of "adapter_idle\<lparr>discov_active := True\<rparr>" disc_env_ok discover_call]
    discover_devices_guards [of adapter_bonding disc_env_ok discover_call]
  show ?thesis by simp
qed

text \<open>
  The sentence of the specification fails for the periodic kind: with a periodic
  discovery active and nothing else going on, the call starts an inquiry and succeeds.
\<close>

theorem discover_devices_periodic_counterexample:
  "pdiscov_active (adapter_idle\<lparr>pdiscov_active := True\<rparr>)
   \<and> adapter_discover_devices disc_env_ok (adapter_idle\<lparr>pdiscov_active := True\<rparr>) discover_call
       = (MethodReturn,
          adapter_idle\<lparr>pdiscov_active := True, discov_type := 0x11,
            discov_requestor := Some '':1.7'', discov_listener := 6\<rparr>,
          [HciOpenDev 3, Inquiry 0 0, HciCloseDev, AddDisconnectWatch '':1.7'' 6])"
  by (simp add: adapter_discover_devices_def pending_remote_name_cancel_def
        g_slist_find_custom_def STD_INQUIRY_def RESOLVE_NAME_def example_defs Let_def)

subsection \<open>Bonding\<close>

text \<open>
  C6. While a bonding is in flight, when its raw link reports hangup or error (and
  not an invalid descriptor, which is answered first and differently), the requester
  gets exactly one reply: ConnectionAttemptFailed (with ENETDOWN) if authentication
  had not been requested yet, and otherwise the authentication reply for the last
  recorded hardware status, or for the generic authentication-failure status when none
  was recorded.
\<close>

theorem create_bonding_hangup_reply:
  assumes "bonding a = Some b" and "cond AND G_IO_NVAL = 0"
    and "cond AND (G_IO_HUP OR G_IO_ERR) \<noteq> 0"
  shows "replies_of (snd (create_bonding_conn_complete env a cond)) =
           [(bonding_msg b,
             if \<not> auth_active b then ConnectionAttemptFailed ENETDOWN
             else AuthenticationReturn
                    (if hci_status b \<noteq> 0 then hci_status b else HCI_AUTHENTICATION_FAILURE))]"
  using assms
  by (auto simp: create_bonding_conn_complete_def bonding_failed_def bonding_cleanup_def
        remove_pending_device_def reply_authentication_failure_def replies_of_append Let_def
        split: option.splits prod.splits)

theorem create_bonding_hangup_reply_witness:
  "bonding adapter_bonding = Some bonding_new \<and> G_IO_HUP AND G_IO_NVAL = 0
   \<and> G_IO_HUP AND (G_IO_HUP OR G_IO_ERR) \<noteq> 0 \<and> \<not> auth_active bonding_new
   \<and> replies_of (snd (create_bonding_conn_complete bond_env_ok adapter_bonding G_IO_HUP))
       = [(bonding_call, ConnectionAttemptFailed ENETDOWN)]
   \<and> replies_of (snd (create_bonding_conn_complete bond_env_ok
         (adapter_idle\<lparr>bonding := Some (bonding_new\<lparr>auth_active := True\<rparr>)\<rparr>) G_IO_ERR))
       = [(bonding_call, AuthenticationReturn HCI_AUTHENTICATION_FAILURE)]
   \<and> replies_of (snd (create_bonding_conn_complete bond_env_ok
         (adapter_idle\<lparr>bonding := Some (bonding_new\<lparr>auth_active := True, hci_status := 0x18\<rparr>)\<rparr>)
         G_IO_ERR))
       = [(bonding_call, AuthenticationReturn 0x18)]"
proof -
  have h1: "bonding adapter_bonding = Some bonding_new" by (simp add: example_defs)
  have h2: "G_IO_HUP AND G_IO_NVAL = 0" "G_IO_ERR AND G_IO_NVAL = 0"
    by (simp_all add: G_IO_HUP_def G_IO_NVAL_def G_IO_ERR_def)
  have h3: "G_IO_HUP AND (G_IO_HUP OR G_IO_ERR) \<noteq> 0" "G_IO_ERR AND (G_IO_HUP OR G_IO_ERR) \<noteq> 0"
    by (simp_all add: G_IO_HUP_def G_IO_ERR_def)
  have h4: "\<not> auth_active bonding_new" "hci_status bonding_new = 0" "bonding_msg bonding_new = bonding_call"
    by (simp_all add: example_defs)
  let ?a2 = "adapter_idle\<lparr>bonding := Some (bonding_new\<lparr>auth_active := True\<rparr>)\<rparr>"
  let ?a3 = "adapter_idle\<lparr>bonding := Some (bonding_new\<lparr>auth_active := True, hci_status := 0x18\<rparr>)\<rparr>"
  have b2: "bonding ?a2 = Some (bonding_new\<lparr>auth_active := True\<rparr>)" by simp
  have b3: "bonding ?a3 = Some (bonding_new\<lparr>auth_active := True, hci_status := 0x18\<rparr>)" by simp
  from h1 h2 h3 h4
    create_bonding_hangup_reply [OF h1 h2(1) h3(1), of bond_env_ok]
    create_bonding_hangup_reply [OF b2 h2(2) h3(2), of bond_env_ok]
    create_bonding_hangup_reply [OF b3 h2(2) h3(2), of bond_env_ok]
  show ?thesis by simp
qed




subsection \<open>The audio device\<close>

text \<open>
  C8. Connect() in state Connecting is answered InProgress and in state Connected
  AlreadyConnected, both without any change. From Disconnected the call either leaves
  the device in state Connecting with the request stored and no reply yet, or it
  answers with a Failed error: "Failed to get AVDTP session" when no session could be
  obtained, "Connect Failed" when the state did not reach Connecting. It never
  answers with success.
\<close>

theorem dev_connect_outcomes:
  "(state (priv dev) = AUDIO_STATE_CONNECTING \<longrightarrow>
      dev_connect env dev msg = (Some BtdInProgress, dev, []))
   \<and> (state (priv dev) = AUDIO_STATE_CONNECTED \<longrightarrow>
      dev_connect env dev msg = (Some BtdAlreadyConnected, dev, []))
   \<and> (state (priv dev) = AUDIO_STATE_DISCONNECTED \<and> dev_connect env dev msg = (r, dev', tr) \<longrightarrow>
        (r = None \<and> state (priv dev') = AUDIO_STATE_CONNECTING \<and> conn_req (priv dev') = Some msg)
        \<or> r = Some (BtdFailed ''Failed to get AVDTP session'')
        \<or> (r = Some (BtdFailed ''Connect Failed'') \<and> state (priv dev') \<noteq> AUDIO_STATE_CONNECTING))
   \<and> fst (dev_connect env dev msg) \<noteq> Some BtdMethodReturn"
  by (auto simp: dev_connect_def dev_connect_finish_def Let_def split: prod.splits if_splits)

theorem dev_connect_outcomes_witness:
  "state (priv (with_state audio_device_new AUDIO_STATE_CONNECTING)) = AUDIO_STATE_CONNECTING
   \<and> dev_connect env_connecting (with_state audio_device_new AUDIO_STATE_CONNECTING) connect_call
       = (Some BtdInProgress, with_state audio_device_new AUDIO_STATE_CONNECTING, [])
   \<and> state (priv (with_state audio_device_new AUDIO_STATE_CONNECTED)) = AUDIO_STATE_CONNECTED
   \<and> dev_connect env_connecting (with_state audio_device_new AUDIO_STATE_CONNECTED) connect_call
       = (Some BtdAlreadyConnected, with_state audio_device_new AUDIO_STATE_CONNECTED, [])
   \<and> state (priv audio_device_new) = AUDIO_STATE_DISCONNECTED
   \<and> fst (dev_connect env_connecting audio_device_new connect_call) = None
   \<and> state (priv (fst (snd (dev_connect env_connecting audio_device_new connect_call))))
       = AUDIO_STATE_CONNECTING
   \<and> conn_req (priv (fst (snd (dev_connect env_connecting audio_device_new connect_call))))
       = Some connect_call
   \<and> fst (dev_connect env_silent audio_device_new connect_call)
       = Some (BtdFailed ''Connect Failed'')
   \<and> state (priv (fst (snd (dev_connect env_silent audio_device_new connect_call))))
       = AUDIO_STATE_DISCONNECTED"
proof -
  have s: "state (priv (with_state audio_device_new AUDIO_STATE_CONNECTING)) = AUDIO_STATE_CONNECTING"
    "state (priv (with_state audio_device_new AUDIO_STATE_CONNECTED)) = AUDIO_STATE_CONNECTED"
    "state (priv audio_device_new) = AUDIO_STATE_DISCONNECTED"
    by (simp_all add: with_state_def audio_device_new_def)
  have e1: "fst (dev_connect env_connecting audio_device_new connect_call) = None"
    by (simp add: audio_defs Let_def)
  have e2: "fst (dev_connect env_silent audio_device_new connect_call)
       = Some (BtdFailed ''Connect Failed'')"
    by (simp add: audio_defs Let_def)
  have e3: "state (priv (fst (snd (dev_connect env_silent audio_device_new connect_call))))
       = AUDIO_STATE_DISCONNECTED"
    by (simp add: audio_defs Let_def)
  obtain d1 t1 where r1: "dev_connect env_connecting audio_device_new connect_call = (None, d1, t1)"
    using e1 by (cases "dev_connect env_connecting audio_device_new connect_call") auto
  from s r1 e2 e3
    dev_connect_outcomes [of "with_state audio_device_new AUDIO_STATE_CONNECTING" env_connecting connect_call]
    dev_connect_outcomes [of "with_state audio_device_new AUDIO_STATE_CONNECTED" env_connecting connect_call]
    dev_connect_outcomes [of audio_device_new env_connecting connect_call None d1 t1]
  show ?thesis by simp
qed

text \<open>
  C9. \<open>device_set_state\<close> registers the disconnect watch before it tests whether the
  state changes. A second call for Connecting while the device is Connecting therefore
  registers a second watch and overwrites the stored handle: two watches are
  registered, and entering Disconnected removes only the second, so the first stays
  registered. The same happens when the sink callback reports Connecting twice.
\<close>

theorem device_set_state_repeated_connecting:
  "watches (btd_dev (set_states audio_device_new [AUDIO_STATE_CONNECTING])) = [1]
   \<and> dc_id (priv (set_states audio_device_new [AUDIO_STATE_CONNECTING])) = 1
   \<and> state (priv (set_states audio_device_new [AUDIO_STATE_CONNECTING, AUDIO_STATE_CONNECTING]))
       = AUDIO_STATE_CONNECTING
   \<and> watches (btd_dev (set_states audio_device_new
         [AUDIO_STATE_CONNECTING, AUDIO_STATE_CONNECTING])) = [1, 2]
   \<and> dc_id (priv (set_states audio_device_new
         [AUDIO_STATE_CONNECTING, AUDIO_STATE_CONNECTING])) = 2
   \<and> state (priv (set_states audio_device_new
         [AUDIO_STATE_CONNECTING, AUDIO_STATE_CONNECTING, AUDIO_STATE_DISCONNECTED]))
       = AUDIO_STATE_DISCONNECTED
   \<and> watches (btd_dev (set_states audio_device_new
         [AUDIO_STATE_CONNECTING, AUDIO_STATE_CONNECTING, AUDIO_STATE_DISCONNECTED])) = [1]
   \<and> watches (btd_dev (fst (run_callbacks audio_device_new
         [SinkCb SINK_STATE_DISCONNECTED SINK_STATE_CONNECTING,
          SinkCb SINK_STATE_CONNECTING SINK_STATE_CONNECTING]))) = [1, 2]"
  by (simp add: audio_defs Let_def)

end
